theory Spec2Isabelle
  imports Main
begin

section \<open>Resource composition: the data model of \<open>init\<close>\<close>

text \<open>
  The Go method \<open>(hc *Creater) init\<close> of package \<open>blackduck\<close> queues the cluster objects
  of one Black Duck instance on a deployer. Go strings are \<^typ>\<open>string\<close>, a Go
  \<open>error\<close> is the text it prints, and \<open>nil\<close> for an error or a pointer is \<open>None\<close>.
\<close>

text \<open>\<open>v1.PVC\<close>: one storage-claim declaration of the instance specification.\<close>

record PVC =
  Name :: string
  Size :: string
  StorageClass :: string

text \<open>
  \<open>v1.BlackduckSpec\<close>, restricted to the fields \<open>init\<close> reads. \<open>ExternalPostgres\<close> is a
  pointer to a configuration struct whose fields \<open>init\<close> never inspects: \<open>'x option\<close>.
\<close>

record 'x BlackduckSpec =
  Namespace :: string
  PersistentStorage :: bool
  PVC :: "PVC list"
  PVCStorageClass :: string
  ExternalPostgres :: "'x option"

text \<open>\<open>horizonapi.PVCAccessModeType\<close>: the access modes of a persistent volume claim.\<close>

datatype PVCAccessModeType = ReadWriteOnce | ReadOnlyMany | ReadWriteMany

text \<open>
  Modelled from the spec: \<open>components.PersistentVolumeClaim\<close> of the horizon library is
  not part of the sources. The spec describes a resolved claim by name, namespace, size,
  storage class and access mode, which are the five arguments \<open>init\<close> passes to
  \<open>util.CreatePersistentVolumeClaim\<close>.
\<close>

record PersistentVolumeClaim =
  pvcName :: string
  pvcNamespace :: string
  pvcSize :: string
  pvcClass :: string
  pvcAccessMode :: PVCAccessModeType

subsection \<open>Size and storage class of one claim\<close>

text \<open>
  Lines 67--70 of \<open>init\<close>: the storage class of the instance, overridden by the claim's
  own when that is non-empty.
\<close>

definition claimStorageClass :: "'x BlackduckSpec \<Rightarrow> PVC \<Rightarrow> string" where
  "claimStorageClass createHub claim =
     (if length (StorageClass claim) > 0 then StorageClass claim
      else PVCStorageClass createHub)"

text \<open>
  Lines 72--124 of \<open>init\<close>: the \<open>switch claim.Name\<close>. Each recognised arm first assigns
  its literal and then overrides it with \<open>claim.Size\<close> when that is non-empty; the
  \<open>default\<close> arm takes \<open>claim.Size\<close> as it is.
\<close>

definition claimSize :: "PVC \<Rightarrow> string" where
  "claimSize claim =
     (if Name claim = ''blackduck-postgres'' then
        (if length (Size claim) > 0 then Size claim else ''150Gi'')
      else if Name claim = ''blackduck-authentication'' then
        (if length (Size claim) > 0 then Size claim else ''2Gi'')
      else if Name claim = ''blackduck-cfssl'' then
        (if length (Size claim) > 0 then Size claim else ''2Gi'')
      else if Name claim = ''blackduck-registration'' then
        (if length (Size claim) > 0 then Size claim else ''2Gi'')
      else if Name claim = ''blackduck-solr'' then
        (if length (Size claim) > 0 then Size claim else ''2Gi'')
      else if Name claim = ''blackduck-webapp'' then
        (if length (Size claim) > 0 then Size claim else ''2Gi'')
      else if Name claim = ''blackduck-logstash'' then
        (if length (Size claim) > 0 then Size claim else ''20Gi'')
      else if Name claim = ''blackduck-zookeeper-data'' then
        (if length (Size claim) > 0 then Size claim else ''2Gi'')
      else if Name claim = ''blackduck-zookeeper-datalog'' then
        (if length (Size claim) > 0 then Size claim else ''2Gi'')
      else Size claim)"

text \<open>
  The case labels of that switch with the literal each arm assigns: the defaults table
  the code carries.
\<close>

definition switchDefaults :: "(string \<times> string) list" where
  "switchDefaults =
     [(''blackduck-postgres'', ''150Gi''),
      (''blackduck-authentication'', ''2Gi''),
      (''blackduck-cfssl'', ''2Gi''),
      (''blackduck-registration'', ''2Gi''),
      (''blackduck-solr'', ''2Gi''),
      (''blackduck-webapp'', ''2Gi''),
      (''blackduck-logstash'', ''20Gi''),
      (''blackduck-zookeeper-data'', ''2Gi''),
      (''blackduck-zookeeper-datalog'', ''2Gi'')]"

definition defaultSizeFor :: "string \<Rightarrow> string option" where
  "defaultSizeFor claimName = map_of switchDefaults claimName"

text \<open>
  The Resource Defaults Table as the specification words it (section 4.1, contract
  \<open>defaultSizeFor(claimName) -> (size, found)\<close>), kept apart from the table of the code
  for comparison; \<open>None\<close> is \<open>found = false\<close>.
\<close>

definition specDefaults :: "(string \<times> string) list" where
  "specDefaults =
     [(''postgres'', ''150Gi''),
      (''authentication'', ''2Gi''),
      (''cfssl'', ''2Gi''),
      (''registration'', ''2Gi''),
      (''solr'', ''2Gi''),
      (''webapp'', ''2Gi''),
      (''logstash'', ''20Gi''),
      (''zookeeper-data'', ''2Gi''),
      (''zookeeper-datalog'', ''2Gi'')]"

definition specDefaultSizeFor :: "string \<Rightarrow> string option" where
  "specDefaultSizeFor claimName = map_of specDefaults claimName"

subsection \<open>The deployer and the collaborators of \<open>init\<close>\<close>

text \<open>
  Modelled from the spec: \<open>horizon.Deployer\<close> is not part of the sources. The spec calls
  it the deployment-execution layer on which the composer queues objects; it is a record
  of queues, one for each \<open>Add...\<close> method \<open>init\<close> calls, each in queueing order. The
  deployer is passed by pointer, so \<open>init\<close> returns the deployer it leaves behind.
  Objects built by helpers outside the sources are values of the type \<open>'o\<close>.
\<close>

record 'o Deployer =
  namespaces :: "'o list"
  secrets :: "'o list"
  serviceAccounts :: "'o list"
  clusterRoleBindings :: "'o list"
  configMaps :: "'o list"
  pvcs :: "PersistentVolumeClaim list"
  replicationControllers :: "'o list"
  services :: "'o list"

definition NewDeployer :: "'o Deployer" where
  "NewDeployer =
     \<lparr>namespaces = [], secrets = [], serviceAccounts = [], clusterRoleBindings = [],
      configMaps = [], pvcs = [], replicationControllers = [], services = []\<rparr>"

definition AddNamespace :: "'o Deployer \<Rightarrow> 'o \<Rightarrow> 'o Deployer" where
  "AddNamespace d obj = d\<lparr>namespaces := namespaces d @ [obj]\<rparr>"

definition AddSecret :: "'o Deployer \<Rightarrow> 'o \<Rightarrow> 'o Deployer" where
  "AddSecret d obj = d\<lparr>secrets := secrets d @ [obj]\<rparr>"

definition AddServiceAccount :: "'o Deployer \<Rightarrow> 'o \<Rightarrow> 'o Deployer" where
  "AddServiceAccount d obj = d\<lparr>serviceAccounts := serviceAccounts d @ [obj]\<rparr>"

definition AddClusterRoleBinding :: "'o Deployer \<Rightarrow> 'o \<Rightarrow> 'o Deployer" where
  "AddClusterRoleBinding d obj = d\<lparr>clusterRoleBindings := clusterRoleBindings d @ [obj]\<rparr>"

definition AddConfigMap :: "'o Deployer \<Rightarrow> 'o \<Rightarrow> 'o Deployer" where
  "AddConfigMap d obj = d\<lparr>configMaps := configMaps d @ [obj]\<rparr>"

definition AddPVC :: "'o Deployer \<Rightarrow> PersistentVolumeClaim \<Rightarrow> 'o Deployer" where
  "AddPVC d obj = d\<lparr>pvcs := pvcs d @ [obj]\<rparr>"

definition AddReplicationController :: "'o Deployer \<Rightarrow> 'o \<Rightarrow> 'o Deployer" where
  "AddReplicationController d obj =
     d\<lparr>replicationControllers := replicationControllers d @ [obj]\<rparr>"

definition AddService :: "'o Deployer \<Rightarrow> 'o \<Rightarrow> 'o Deployer" where
  "AddService d obj = d\<lparr>services := services d @ [obj]\<rparr>"

text \<open>
  The helpers \<open>init\<close> calls that live outside the sources, taken as parameters: the
  namespace probe \<open>util.GetNamespace\<close> (its error, \<open>None\<close> when the namespace exists), the
  object builders, the verdict of the claim constructor on a resolved claim (\<open>None\<close>
  when it accepts, else its error), and the two getters of the container creater that
  \<open>containers.NewCreater\<close> returns for the specification, the flavor \<open>'f\<close> and the
  environment entries \<open>'n\<close>.
\<close>

record ('o, 'x, 'f, 'n) Externals =
  GetNamespace :: "string \<Rightarrow> string option"
  NewNamespace :: "string \<Rightarrow> 'o"
  createHubSecrets :: "'x BlackduckSpec \<Rightarrow> string \<Rightarrow> string \<Rightarrow> 'o list"
  CreateServiceAccount :: "string \<Rightarrow> string \<Rightarrow> 'o"
  CreateClusterRoleBinding ::
    "string \<Rightarrow> string \<Rightarrow> string \<Rightarrow> string \<Rightarrow> string \<Rightarrow> string \<Rightarrow> 'o"
  createHubConfig :: "'x BlackduckSpec \<Rightarrow> 'f \<Rightarrow> bool \<Rightarrow> 'o list"
  pvcRejected :: "PersistentVolumeClaim \<Rightarrow> string option"
  GetPostgresDeployment :: "'x BlackduckSpec \<Rightarrow> 'f \<Rightarrow> 'n list \<Rightarrow> 'o"
  GetPostgresService :: "'x BlackduckSpec \<Rightarrow> 'f \<Rightarrow> 'n list \<Rightarrow> 'o"

text \<open>
  Modelled from the spec: \<open>util.CreatePersistentVolumeClaim\<close> is not part of the sources.
  By the spec it builds the resolved claim from its five arguments, or fails with a
  validation error when the constructor underneath rejects the combination.
\<close>

definition CreatePersistentVolumeClaim ::
  "('o, 'x, 'f, 'n) Externals \<Rightarrow> string \<Rightarrow> string \<Rightarrow> string \<Rightarrow> string \<Rightarrow> PVCAccessModeType
     \<Rightarrow> string + PersistentVolumeClaim" where
  "CreatePersistentVolumeClaim ext name namespace pvcClaimSize storageClass accessMode =
     (let pvc = \<lparr>pvcName = name, pvcNamespace = namespace, pvcSize = pvcClaimSize,
                  pvcClass = storageClass, pvcAccessMode = accessMode\<rparr>
      in case pvcRejected ext pvc of Some err \<Rightarrow> Inl err | None \<Rightarrow> Inr pvc)"

subsection \<open>\<open>init\<close>\<close>

text \<open>
  The text of \<open>fmt.Errorf("failed to create the postgres PVC %s in namespace %s because
  %+v", claim.Name, createHub.Namespace, err)\<close>.
\<close>

definition pvcErrorf :: "string \<Rightarrow> string \<Rightarrow> string \<Rightarrow> string" where
  "pvcErrorf name namespace err =
     ''failed to create the postgres PVC '' @ name @ '' in namespace '' @ namespace
       @ '' because '' @ err"

text \<open>
  Lines 66--132: the loop over \<open>createHub.PVC\<close>. A rejected claim returns from \<open>init\<close> at
  once with the wrapped error; the result is the deployer as the loop leaves it and the
  error, \<open>None\<close> when the loop ran to its end.
\<close>

fun initClaims ::
  "('o, 'x, 'f, 'n) Externals \<Rightarrow> 'x BlackduckSpec \<Rightarrow> PVC list \<Rightarrow> 'o Deployer
     \<Rightarrow> 'o Deployer \<times> string option" where
  "initClaims ext createHub [] deployer = (deployer, None)"
| "initClaims ext createHub (claim # rest) deployer =
     (let storageClass = claimStorageClass createHub claim;
          size = claimSize claim
      in case CreatePersistentVolumeClaim ext (Name claim) (Namespace createHub) size
                storageClass ReadWriteOnce of
           Inl err \<Rightarrow>
             (deployer, Some (pvcErrorf (Name claim) (Namespace createHub) err))
         | Inr pvc \<Rightarrow> initClaims ext createHub rest (AddPVC deployer pvc))"

text \<open>
  Lines 38--63: the namespace (queued when the probe fails), the secrets, the service
  account, the cluster role binding and the config maps.
\<close>

definition initBase ::
  "('o, 'x, 'f, 'n) Externals \<Rightarrow> 'o Deployer \<Rightarrow> 'x BlackduckSpec \<Rightarrow> 'f
     \<Rightarrow> string \<Rightarrow> string \<Rightarrow> bool \<Rightarrow> 'o Deployer" where
  "initBase ext deployer createHub hubContainerFlavor adminPassword userPassword
        isBinaryAnalysisEnabled =
     (let ns = Namespace createHub;
          d1 = (case GetNamespace ext ns of
                  Some err \<Rightarrow> AddNamespace deployer (NewNamespace ext ns)
                | None \<Rightarrow> deployer);
          d2 = foldl AddSecret d1 (createHubSecrets ext createHub adminPassword userPassword);
          d3 = AddServiceAccount d2 (CreateServiceAccount ext ns ns);
          d4 = AddClusterRoleBinding d3
                 (CreateClusterRoleBinding ext ns ns ns [] ''ClusterRole'' ''cluster-admin'')
      in foldl AddConfigMap d4
           (createHubConfig ext createHub hubContainerFlavor isBinaryAnalysisEnabled))"

text \<open>
  \<open>init\<close> itself (the receiver's \<open>KubeClient\<close> and \<open>Config\<close> are inside the helpers).
  The result is the deployer after the call and the returned error.
\<close>

definition init ::
  "('o, 'x, 'f, 'n) Externals \<Rightarrow> 'o Deployer \<Rightarrow> 'x BlackduckSpec \<Rightarrow> 'f \<Rightarrow> 'n list
     \<Rightarrow> string \<Rightarrow> string \<Rightarrow> bool \<Rightarrow> 'o Deployer \<times> string option" where
  "init ext deployer createHub hubContainerFlavor allConfigEnv adminPassword userPassword
        isBinaryAnalysisEnabled =
     (let d5 = initBase ext deployer createHub hubContainerFlavor adminPassword userPassword
                 isBinaryAnalysisEnabled
      in case (if PersistentStorage createHub
               then initClaims ext createHub (PVC createHub) d5
               else (d5, None)) of
           (d6, Some err) \<Rightarrow> (d6, Some err)
         | (d6, None) \<Rightarrow>
             if ExternalPostgres createHub = None then
               (AddService
                  (AddReplicationController d6
                     (GetPostgresDeployment ext createHub hubContainerFlavor allConfigEnv))
                  (GetPostgresService ext createHub hubContainerFlavor allConfigEnv),
                None)
             else (d6, None))"

text \<open>The claim \<open>init\<close> asks the constructor for, for one declaration.\<close>

definition resolvedPVC :: "'x BlackduckSpec \<Rightarrow> PVC \<Rightarrow> PersistentVolumeClaim" where
  "resolvedPVC createHub claim =
     \<lparr>pvcName = Name claim, pvcNamespace = Namespace createHub, pvcSize = claimSize claim,
      pvcClass = claimStorageClass createHub claim, pvcAccessMode = ReadWriteOnce\<rparr>"

section \<open>Command dispatch: \<open>utils.go\<close> of package \<open>synopsysctl\<close>\<close>

text \<open>
  A Go function can panic instead of returning. The two run-time panics the dispatch code
  can raise are an index out of range and a nil pointer dereference.
\<close>

datatype panic = IndexOutOfRange | NilPointerDereference

datatype 'a go = Panics panic | Returns 'a

text \<open>\<open>exec.Command(name, arg...)\<close>: the binary and the arguments it is started with.\<close>

record Cmd =
  cmdName :: string
  cmdArgs :: "string list"

text \<open>
  What the dispatch code reads from outside itself: \<open>exec.LookPath\<close> (its error, \<open>None\<close>
  when the binary is found), the probe \<open>util.IsOpenshift(kubeClient)\<close>, the package
  variables \<open>insecureSkipTLSVerify\<close> and \<open>kubeConfigPath\<close>, and the subprocess: the result
  of \<open>cmd.StdinPipe()\<close> (its error), of \<open>cmd.CombinedOutput()\<close> for a command and the text
  written to its standard input, if any (the output and the error), and of \<open>cmd.Run()\<close>.
\<close>

record Env =
  LookPath :: "string \<Rightarrow> string option"
  IsOpenshift :: bool
  insecureSkipTLSVerify :: bool
  kubeConfigPath :: string
  StdinPipe :: "Cmd \<Rightarrow> string option"
  CombinedOutput :: "Cmd \<Rightarrow> string option \<Rightarrow> string \<times> string option"
  Run :: "Cmd \<Rightarrow> string option"

text \<open>\<open>DetermineClusterClients\<close> returns \<open>(kube, openshift)\<close>.\<close>

definition DetermineClusterClients :: "Env \<Rightarrow> bool \<times> bool" where
  "DetermineClusterClients env =
     (let kubectlPath = (LookPath env ''kubectl'' = None);
          ocPath = (LookPath env ''oc'' = None);
          openshiftTest = IsOpenshift env
      in if ocPath \<and> openshiftTest then (False, True)
         else if kubectlPath \<and> \<not> openshiftTest then (True, False)
         else if kubectlPath \<and> \<not> ocPath \<and> openshiftTest then (True, False)
         else if ocPath \<and> \<not> kubectlPath \<and> \<not> openshiftTest then (False, True)
         else (False, False))"

text \<open>\<open>fmt.Sprintf("%t", b)\<close>.\<close>

definition sprintfBool :: "bool \<Rightarrow> string" where
  "sprintfBool b = (if b then ''true'' else ''false'')"

text \<open>
  Lines 188--197 (and again 255--264): the argument list after the \<open>cluster-info\<close> shim
  and the two global flags. \<open>args[0]\<close> is the left operand of \<open>&&\<close>, so it is read
  whatever \<open>openshift\<close> is, and panics on an empty list.
\<close>

definition kubeArgs :: "Env \<Rightarrow> bool \<Rightarrow> string list \<Rightarrow> string list go" where
  "kubeArgs env openshift args =
     (case args of
        [] \<Rightarrow> Panics IndexOutOfRange
      | arg0 # rest \<Rightarrow>
          (let args1 = (if arg0 = ''cluster-info'' \<and> openshift then ''status'' # rest
                        else args);
               args2 = (if insecureSkipTLSVerify env = True
                        then [''--insecure-skip-tls-verify=''
                                @ sprintfBool (insecureSkipTLSVerify env)] @ args1
                        else args1);
               args3 = (if kubeConfigPath env \<noteq> []
                        then [''--kubeconfig='' @ kubeConfigPath env] @ args2
                        else args2)
           in Returns args3))"

text \<open>\<open>getKubeExecCmd\<close> returns \<open>(*exec.Cmd, error)\<close>: \<open>Inr\<close> the command, \<open>Inl\<close> the error.\<close>

definition getKubeExecCmd :: "Env \<Rightarrow> string list \<Rightarrow> (string + Cmd) go" where
  "getKubeExecCmd env args =
     (case DetermineClusterClients env of (kube, openshift) \<Rightarrow>
        (case kubeArgs env openshift args of
           Panics p \<Rightarrow> Panics p
         | Returns args' \<Rightarrow>
             if openshift then Returns (Inr \<lparr>cmdName = ''oc'', cmdArgs = args'\<rparr>)
             else if kube then Returns (Inr \<lparr>cmdName = ''kubectl'', cmdArgs = args'\<rparr>)
             else Returns
                    (Inl ''couldn't determine if running in Openshift or Kubernetes'')))"

text \<open>\<open>RunKubeCmd\<close> returns \<open>(string, error)\<close>.\<close>

definition RunKubeCmd :: "Env \<Rightarrow> string list \<Rightarrow> (string \<times> string option) go" where
  "RunKubeCmd env args =
     (case getKubeExecCmd env args of
        Panics p \<Rightarrow> Panics p
      | Returns (Inl err) \<Rightarrow> Returns ([], Some err)
      | Returns (Inr cmd2) \<Rightarrow>
          (case CombinedOutput env cmd2 None of
             (stdoutErr, Some err) \<Rightarrow> Returns (stdoutErr, Some err)
           | (stdoutErr, None) \<Rightarrow> Returns (stdoutErr, None)))"

text \<open>
  \<open>RunKubeCmdWithStdin\<close>: the goroutine writes \<open>stdin\<close> to the pipe and closes it while
  \<open>CombinedOutput\<close> runs the command; the command runs with \<open>stdin\<close> on its input.
\<close>

definition RunKubeCmdWithStdin ::
  "Env \<Rightarrow> string \<Rightarrow> string list \<Rightarrow> (string \<times> string option) go" where
  "RunKubeCmdWithStdin env stdin args =
     (case getKubeExecCmd env args of
        Panics p \<Rightarrow> Panics p
      | Returns (Inl err) \<Rightarrow> Returns ([], Some err)
      | Returns (Inr cmd2) \<Rightarrow>
          (case StdinPipe env cmd2 of
             Some err \<Rightarrow> Returns ([], Some err)
           | None \<Rightarrow>
               (case CombinedOutput env cmd2 (Some stdin) of
                  (stdoutErr, Some err) \<Rightarrow> Returns (stdoutErr, Some err)
                | (stdoutErr, None) \<Rightarrow> Returns (stdoutErr, None))))"

text \<open>
  \<open>RunKubeEditorCmd\<close> returns an error. \<open>cmd\<close> is declared as a nil pointer and assigned
  only in the \<open>openshift\<close> and \<open>kube\<close> branches; \<open>cmd.Stdin = os.Stdin\<close> then writes
  through it.
\<close>

definition RunKubeEditorCmd :: "Env \<Rightarrow> string list \<Rightarrow> string option go" where
  "RunKubeEditorCmd env args =
     (case DetermineClusterClients env of (kube, openshift) \<Rightarrow>
        (case kubeArgs env openshift args of
           Panics p \<Rightarrow> Panics p
         | Returns args' \<Rightarrow>
             (let cmd = (if openshift then Some \<lparr>cmdName = ''oc'', cmdArgs = args'\<rparr>
                         else if kube then Some \<lparr>cmdName = ''kubectl'', cmdArgs = args'\<rparr>
                         else None)
              in case cmd of
                   None \<Rightarrow> Panics NilPointerDereference
                 | Some c \<Rightarrow>
                     (case Run env c of
                        Some err \<Rightarrow> Returns (Some err)
                      | None \<Rightarrow> Returns None))))"

subsection \<open>The order of the steps\<close>







subsection \<open>Serialising runtime objects\<close>

text \<open>
  \<open>objects\<close> is a Go map from names to objects, \<^typ>\<open>string \<rightharpoonup> 'obj\<close>. The statement
  \<open>for _, obj := range objects\<close> visits every entry once, in an order the Go run time
  chooses anew for each loop: the sequence of entries visited is an argument of the
  model, and \<open>rangeOrder\<close> says which sequences the run time may choose for a map.
\<close>

definition rangeOrder :: "(string \<rightharpoonup> 'obj) \<Rightarrow> (string \<times> 'obj) list \<Rightarrow> bool" where
  "rangeOrder objects visited \<longleftrightarrow> distinct (map fst visited) \<and> map_of visited = objects"

text \<open>
  Lines 283--290 (and 301--308): the loop appending \<open>json.Marshal(obj)\<close> to \<open>content\<close>.
  \<open>marshal\<close> is \<open>json.Marshal\<close>: \<open>Inl\<close> its error, \<open>Inr\<close> the bytes.
\<close>

fun marshalObjects ::
  "('obj \<Rightarrow> string + string) \<Rightarrow> (string \<times> 'obj) list \<Rightarrow> string \<Rightarrow> string + string" where
  "marshalObjects marshal [] content = Inr content"
| "marshalObjects marshal ((key, obj) # rest) content =
     (case marshal obj of
        Inl err \<Rightarrow> Inl err
      | Inr secretBytes \<Rightarrow> marshalObjects marshal rest (content @ secretBytes))"

definition KubectlApplyRuntimeObjects ::
  "Env \<Rightarrow> ('obj \<Rightarrow> string + string) \<Rightarrow> (string \<times> 'obj) list \<Rightarrow> string option go" where
  "KubectlApplyRuntimeObjects env marshal visited =
     (case marshalObjects marshal visited [] of
        Inl err \<Rightarrow> Returns (Some err)
      | Inr content \<Rightarrow>
          (case RunKubeCmdWithStdin env content
                  [''apply'', ''--validate=false'', ''-f'', ''-''] of
             Panics p \<Rightarrow> Panics p
           | Returns (out, Some err) \<Rightarrow>
               Returns (Some (''failed to deploy Runtime Object: '' @ out @ '' : '' @ err))
           | Returns (out, None) \<Rightarrow> Returns None))"

definition KubectlDeleteRuntimeObjects ::
  "Env \<Rightarrow> ('obj \<Rightarrow> string + string) \<Rightarrow> (string \<times> 'obj) list \<Rightarrow> string option go" where
  "KubectlDeleteRuntimeObjects env marshal visited =
     (case marshalObjects marshal visited [] of
        Inl err \<Rightarrow> Returns (Some err)
      | Inr content \<Rightarrow>
          (case RunKubeCmdWithStdin env content [''delete'', ''-f'', ''-''] of
             Panics p \<Rightarrow> Panics p
           | Returns (out, Some err) \<Rightarrow>
               Returns (Some (''failed to delete Runtime Object: '' @ out @ '' : '' @ err))
           | Returns (out, None) \<Rightarrow> Returns None))"

text \<open>
  The global flags that lines 192--197 put in front of the arguments, in the order they
  end up in: \<open>--kubeconfig\<close> is prepended last and so comes first.
\<close>

definition globalFlags :: "Env \<Rightarrow> string list" where
  "globalFlags env =
     (if kubeConfigPath env \<noteq> [] then [''--kubeconfig='' @ kubeConfigPath env] else [])
     @ (if insecureSkipTLSVerify env then [''--insecure-skip-tls-verify=true''] else [])"

section \<open>Concrete inputs\<close>

text \<open>
  Inputs for the concrete instances below: collaborators that build objects named after
  their kind and whose claim constructor answers with a given verdict, a verdict that
  rejects one size, an instance specification in the namespace \<open>bd\<close> with persistence
  enabled, and an environment given by the three inputs of the detector, with no global
  flag set and a subprocess that succeeds without output.
\<close>

definition stubExternals ::
  "(PersistentVolumeClaim \<Rightarrow> string option) \<Rightarrow> (string, unit, unit, unit) Externals" where
  "stubExternals verdict =
     \<lparr>GetNamespace = (\<lambda>ns. Some ''not found''),
      NewNamespace = (\<lambda>ns. ''Namespace''),
      createHubSecrets = (\<lambda>createHub adminPassword userPassword. [''Secret'']),
      CreateServiceAccount = (\<lambda>namespace name. ''ServiceAccount''),
      CreateClusterRoleBinding = (\<lambda>a b c d e f. ''ClusterRoleBinding''),
      createHubConfig = (\<lambda>createHub flavor binaryAnalysis. [''ConfigMap'']),
      pvcRejected = verdict,
      GetPostgresDeployment = (\<lambda>createHub flavor env. ''postgres ReplicationController''),
      GetPostgresService = (\<lambda>createHub flavor env. ''postgres Service'')\<rparr>"

definition rejectSize :: "string \<Rightarrow> PersistentVolumeClaim \<Rightarrow> string option" where
  "rejectSize bad pvc = (if pvcSize pvc = bad then Some ''invalid size'' else None)"

definition stubSpec :: "PVC list \<Rightarrow> unit option \<Rightarrow> unit BlackduckSpec" where
  "stubSpec claims external =
     \<lparr>Namespace = ''bd'', PersistentStorage = True, PVC = claims,
      PVCStorageClass = ''standard'', ExternalPostgres = external\<rparr>"

definition stubEnv :: "bool \<Rightarrow> bool \<Rightarrow> bool \<Rightarrow> Env" where
  "stubEnv kubectl oc openshift =
     \<lparr>LookPath = (\<lambda>file. if (file = ''kubectl'' \<and> kubectl) \<or> (file = ''oc'' \<and> oc)
                          then None else Some ''executable file not found''),
      IsOpenshift = openshift,
      insecureSkipTLSVerify = False,
      kubeConfigPath = [],
      StdinPipe = (\<lambda>cmd. None),
      CombinedOutput = (\<lambda>cmd stdin. ([], None)),
      Run = (\<lambda>cmd. None)\<rparr>"

section \<open>Lemmas on the loops and the dispatch functions\<close>

lemma foldl_AddSecret_fields:
  "pvcs (foldl AddSecret d xs) = pvcs d"
  "replicationControllers (foldl AddSecret d xs) = replicationControllers d"
  "services (foldl AddSecret d xs) = services d"
  by (induction xs arbitrary: d) (simp_all add: AddSecret_def)

lemma foldl_AddConfigMap_fields:
  "pvcs (foldl AddConfigMap d xs) = pvcs d"
  "replicationControllers (foldl AddConfigMap d xs) = replicationControllers d"
  "services (foldl AddConfigMap d xs) = services d"
  by (induction xs arbitrary: d) (simp_all add: AddConfigMap_def)

lemma initBase_fields:
  "pvcs (initBase ext d createHub fl apw upw bin) = pvcs d"
  "replicationControllers (initBase ext d createHub fl apw upw bin) = replicationControllers d"
  "services (initBase ext d createHub fl apw upw bin) = services d"
  by (simp_all add: initBase_def Let_def foldl_AddConfigMap_fields foldl_AddSecret_fields
        AddClusterRoleBinding_def AddServiceAccount_def AddNamespace_def split: option.splits)

lemma CreatePVC_resolved:
  "CreatePersistentVolumeClaim ext (Name claim) (Namespace createHub) (claimSize claim)
     (claimStorageClass createHub claim) ReadWriteOnce =
   (case pvcRejected ext (resolvedPVC createHub claim) of
      Some err \<Rightarrow> Inl err | None \<Rightarrow> Inr (resolvedPVC createHub claim))"
  by (simp add: CreatePersistentVolumeClaim_def resolvedPVC_def Let_def split: option.splits)

lemma initClaims_step:
  "initClaims ext createHub (claim # rest) d =
     (case pvcRejected ext (resolvedPVC createHub claim) of
        Some err \<Rightarrow> (d, Some (pvcErrorf (Name claim) (Namespace createHub) err))
      | None \<Rightarrow> initClaims ext createHub rest (AddPVC d (resolvedPVC createHub claim)))"
  by (simp add: CreatePVC_resolved Let_def split: option.splits)

lemma initClaims_other_fields:
  "replicationControllers (fst (initClaims ext createHub claims d)) = replicationControllers d"
  "services (fst (initClaims ext createHub claims d)) = services d"
  by (induction claims arbitrary: d)
     (simp_all add: initClaims_step AddPVC_def split: option.splits del: initClaims.simps(2))

lemma initClaims_accepted:
  "\<forall>c\<in>set claims. pvcRejected ext (resolvedPVC createHub c) = None \<Longrightarrow>
   initClaims ext createHub claims d =
     (d\<lparr>pvcs := pvcs d @ map (resolvedPVC createHub) claims\<rparr>, None)"
  by (induction claims arbitrary: d)
     (simp_all add: initClaims_step AddPVC_def del: initClaims.simps(2))

lemma initClaims_rejected:
  "\<forall>c\<in>set pre. pvcRejected ext (resolvedPVC createHub c) = None \<Longrightarrow>
   pvcRejected ext (resolvedPVC createHub bad) = Some err \<Longrightarrow>
   initClaims ext createHub (pre @ bad # post) d =
     (d\<lparr>pvcs := pvcs d @ map (resolvedPVC createHub) pre\<rparr>,
      Some (pvcErrorf (Name bad) (Namespace createHub) err))"
  by (induction pre arbitrary: d)
     (simp_all add: initClaims_step AddPVC_def del: initClaims.simps(2))

lemma initClaims_success_pvcs:
  "initClaims ext createHub claims d = (d', None) \<Longrightarrow>
   d' = d\<lparr>pvcs := pvcs d @ map (resolvedPVC createHub) claims\<rparr>"
proof (induction claims arbitrary: d)
  case Nil
  then show ?case by simp
next
  case (Cons claim rest)
  from Cons.prems have ok: "pvcRejected ext (resolvedPVC createHub claim) = None"
    by (simp add: initClaims_step del: initClaims.simps(2) split: option.splits)
  with Cons.prems
  have "initClaims ext createHub rest (AddPVC d (resolvedPVC createHub claim)) = (d', None)"
    by (simp add: initClaims_step del: initClaims.simps(2))
  from Cons.IH [OF this] show ?case
    by (simp add: AddPVC_def)
qed

lemma kubeArgs_Cons:
  "kubeArgs env openshift (arg0 # rest) =
     Returns (globalFlags env
       @ (if arg0 = ''cluster-info'' \<and> openshift then ''status'' else arg0) # rest)"
  by (simp add: kubeArgs_def globalFlags_def sprintfBool_def Let_def)


lemma RunKubeCmd_of_cmd:
  "getKubeExecCmd env args = Returns (Inr cmd) \<Longrightarrow>
   RunKubeCmd env args = Returns (CombinedOutput env cmd None)"
  by (cases "CombinedOutput env cmd None") (simp add: RunKubeCmd_def split: option.splits)

lemma RunKubeCmdWithStdin_of_cmd:
  "getKubeExecCmd env args = Returns (Inr cmd) \<Longrightarrow>
   RunKubeCmdWithStdin env stdin args =
     (case StdinPipe env cmd of
        Some err \<Rightarrow> Returns ([], Some err)
      | None \<Rightarrow> Returns (CombinedOutput env cmd (Some stdin)))"
  by (cases "CombinedOutput env cmd (Some stdin)")
     (simp add: RunKubeCmdWithStdin_def split: option.splits)



lemma marshalObjects_concat:
  "\<forall>(key, obj)\<in>set visited. marshal obj = Inr (bytes obj) \<Longrightarrow>
   marshalObjects marshal visited content =
     Inr (content @ concat (map (\<lambda>(key, obj). bytes obj) visited))"
  by (induction visited arbitrary: content) auto

lemma rangeOrder_entries:
  "rangeOrder objects visited \<Longrightarrow> set visited = {(key, obj). objects key = Some obj}"
  by (auto simp add: rangeOrder_def dest: map_of_SomeD)

section \<open>The claims\<close>

subsection \<open>C1: the defaults table\<close>

text \<open>
  C1, as amended. For every storage-claim declaration with no explicit size, \<open>init\<close>
  resolves the size by the table of its switch, whose keys carry the prefix
  \<open>blackduck-\<close>: \<open>blackduck-postgres\<close> gives 150Gi, \<open>blackduck-logstash\<close> 20Gi, and
  \<open>blackduck-authentication\<close>, \<open>blackduck-cfssl\<close>, \<open>blackduck-registration\<close>,
  \<open>blackduck-solr\<close>, \<open>blackduck-webapp\<close>, \<open>blackduck-zookeeper-data\<close> and
  \<open>blackduck-zookeeper-datalog\<close> 2Gi each. Every other name, the bare \<open>postgres\<close>
  included, is unrecognised and keeps the empty size.
\<close>

theorem C1_defaults_table:
  assumes "Size claim = []"
  shows "claimSize claim =
     (case map_of
        [(''blackduck-postgres'', ''150Gi''),
         (''blackduck-authentication'', ''2Gi''),
         (''blackduck-cfssl'', ''2Gi''),
         (''blackduck-registration'', ''2Gi''),
         (''blackduck-solr'', ''2Gi''),
         (''blackduck-webapp'', ''2Gi''),
         (''blackduck-logstash'', ''20Gi''),
         (''blackduck-zookeeper-data'', ''2Gi''),
         (''blackduck-zookeeper-datalog'', ''2Gi'')] (Name claim) of
        Some d \<Rightarrow> d
      | None \<Rightarrow> [])"
  using assms by (simp add: claimSize_def)

text \<open>
  The table at \<open>blackduck-postgres\<close>, at \<open>blackduck-logstash\<close> and at the bare name
  \<open>postgres\<close>.
\<close>

theorem C1_defaults_table_witness:
  "claimSize \<lparr>Name = ''blackduck-postgres'', Size = [], StorageClass = []\<rparr> = ''150Gi''
   \<and> claimSize \<lparr>Name = ''blackduck-logstash'', Size = [], StorageClass = []\<rparr> = ''20Gi''
   \<and> claimSize \<lparr>Name = ''postgres'', Size = [], StorageClass = []\<rparr> = []"
  using C1_defaults_table [of "\<lparr>Name = ''blackduck-postgres'', Size = [], StorageClass = []\<rparr>"]
    C1_defaults_table [of "\<lparr>Name = ''blackduck-logstash'', Size = [], StorageClass = []\<rparr>"]
    C1_defaults_table [of "\<lparr>Name = ''postgres'', Size = [], StorageClass = []\<rparr>"]
  by simp

text \<open>
  The names as the specification lists them are not the keys of the switch: the
  specification's table gives 150Gi for \<open>postgres\<close>, while the code does not recognise that
  name and resolves a declaration \<open>postgres\<close> with no size to the empty size.
\<close>

theorem C1_bare_postgres_counterexample:
  "specDefaultSizeFor ''postgres'' = Some ''150Gi''
   \<and> defaultSizeFor ''postgres'' = None
   \<and> claimSize \<lparr>Name = ''postgres'', Size = [], StorageClass = []\<rparr> = []"
  by (simp add: specDefaultSizeFor_def specDefaults_def defaultSizeFor_def switchDefaults_def
        claimSize_def)

subsection \<open>C2: precedence of the explicit size\<close>

text \<open>
  C2, as amended. The size of every storage-claim declaration is its explicit size when
  that is non-empty, whatever the name; otherwise the default of the table of the switch,
  whose keys carry the prefix \<open>blackduck-\<close>, when the name is one of those keys;
  otherwise the raw size of the declaration, which is then empty.
\<close>

theorem C2_size_precedence:
  "claimSize claim =
     (if Size claim \<noteq> [] then Size claim
      else case map_of
             [(''blackduck-postgres'', ''150Gi''),
              (''blackduck-authentication'', ''2Gi''),
              (''blackduck-cfssl'', ''2Gi''),
              (''blackduck-registration'', ''2Gi''),
              (''blackduck-solr'', ''2Gi''),
              (''blackduck-webapp'', ''2Gi''),
              (''blackduck-logstash'', ''20Gi''),
              (''blackduck-zookeeper-data'', ''2Gi''),
              (''blackduck-zookeeper-datalog'', ''2Gi'')] (Name claim) of
             Some d \<Rightarrow> d
           | None \<Rightarrow> Size claim)"
  by (simp add: claimSize_def)

text \<open>
  The scenario \<open>{name: "custom-claim", size: ""}\<close> resolves to the empty size; an explicit
  size wins for a recognised name; a recognised name with no size takes its default.
\<close>

theorem C2_size_precedence_witness:
  "claimSize \<lparr>Name = ''custom-claim'', Size = [], StorageClass = []\<rparr> = []
   \<and> claimSize \<lparr>Name = ''blackduck-postgres'', Size = ''10Gi'', StorageClass = []\<rparr> = ''10Gi''
   \<and> claimSize \<lparr>Name = ''blackduck-solr'', Size = [], StorageClass = []\<rparr> = ''2Gi''"
  using C2_size_precedence [of "\<lparr>Name = ''custom-claim'', Size = [], StorageClass = []\<rparr>"]
    C2_size_precedence [of "\<lparr>Name = ''blackduck-postgres'', Size = ''10Gi'', StorageClass = []\<rparr>"]
    C2_size_precedence [of "\<lparr>Name = ''blackduck-solr'', Size = [], StorageClass = []\<rparr>"]
  by simp

text \<open>
  With the Resource Defaults Table as the specification lists it, the precedence fails on
  both sides: \<open>postgres\<close> is in that table and the code keeps the empty size, and
  \<open>blackduck-postgres\<close> is not in it and the code gives 150Gi.
\<close>

theorem C2_spec_table_counterexample:
  "claimSize \<lparr>Name = ''postgres'', Size = [], StorageClass = []\<rparr> \<noteq>
     (if Size \<lparr>Name = ''postgres'', Size = [], StorageClass = []\<rparr> \<noteq> []
      then Size \<lparr>Name = ''postgres'', Size = [], StorageClass = []\<rparr>
      else case specDefaultSizeFor (Name \<lparr>Name = ''postgres'', Size = [], StorageClass = []\<rparr>) of
             Some d \<Rightarrow> d
           | None \<Rightarrow> Size \<lparr>Name = ''postgres'', Size = [], StorageClass = []\<rparr>)
   \<and> claimSize \<lparr>Name = ''blackduck-postgres'', Size = [], StorageClass = []\<rparr> \<noteq>
     (if Size \<lparr>Name = ''blackduck-postgres'', Size = [], StorageClass = []\<rparr> \<noteq> []
      then Size \<lparr>Name = ''blackduck-postgres'', Size = [], StorageClass = []\<rparr>
      else case specDefaultSizeFor
                  (Name \<lparr>Name = ''blackduck-postgres'', Size = [], StorageClass = []\<rparr>) of
             Some d \<Rightarrow> d
           | None \<Rightarrow> Size \<lparr>Name = ''blackduck-postgres'', Size = [], StorageClass = []\<rparr>)"
  by (simp add: claimSize_def specDefaultSizeFor_def specDefaults_def)

subsection \<open>C3: the detector\<close>

text \<open>
  C3. For every outcome of the two path lookups and of the cluster probe,
  \<open>DetermineClusterClients\<close> never returns \<open>(true, true)\<close>, and it returns
  \<open>(false, false)\<close> exactly when neither \<open>kubectl\<close> nor \<open>oc\<close> is found on the path.
\<close>

theorem C3_detect_exclusive:
  "DetermineClusterClients env \<noteq> (True, True)
   \<and> (DetermineClusterClients env = (False, False)
        \<longleftrightarrow> LookPath env ''kubectl'' \<noteq> None \<and> LookPath env ''oc'' \<noteq> None)"
  by (auto simp add: DetermineClusterClients_def Let_def)

text \<open>Neither binary; both binaries on OpenShift; both binaries on Kubernetes.\<close>

theorem C3_detect_exclusive_witness:
  "DetermineClusterClients (stubEnv False False True) = (False, False)
   \<and> DetermineClusterClients (stubEnv True True True) = (False, True)
   \<and> DetermineClusterClients (stubEnv True True False) = (True, False)"
  using C3_detect_exclusive [of "stubEnv False False True"]
  by (simp add: stubEnv_def DetermineClusterClients_def)

subsection \<open>C4: a rejected claim\<close>

text \<open>
  C4, as amended. With persistence enabled, when the constructor accepts the claims
  \<open>pre\<close> and rejects the next one, \<open>init\<close> returns at once the wrapped error that names
  the rejected claim and the namespace. It queues no claim for the rejected declaration
  or any later one and no embedded-database controller or service; the claims built for
  \<open>pre\<close> have been queued on the caller's deployer and stay there.
\<close>

theorem C4_abort_keeps_earlier_pvcs:
  assumes "PersistentStorage createHub"
    and "PVC createHub = pre @ bad # post"
    and "\<forall>c\<in>set pre. pvcRejected ext (resolvedPVC createHub c) = None"
    and "pvcRejected ext (resolvedPVC createHub bad) = Some err"
  shows "snd (init ext d createHub fl env apw upw bin) =
           Some (pvcErrorf (Name bad) (Namespace createHub) err)
       \<and> pvcs (fst (init ext d createHub fl env apw upw bin)) =
           pvcs d @ map (resolvedPVC createHub) pre
       \<and> replicationControllers (fst (init ext d createHub fl env apw upw bin)) =
           replicationControllers d
       \<and> services (fst (init ext d createHub fl env apw upw bin)) = services d"
  using assms
  by (simp add: init_def Let_def initClaims_rejected initBase_fields)

text \<open>
  Three declarations, the second rejected: the error names \<open>custom-claim\<close> and \<open>bd\<close>, the
  claim of the first declaration is queued, that of the third is not.
\<close>

theorem C4_abort_keeps_earlier_pvcs_witness:
  "snd (init (stubExternals (rejectSize ''ten'')) NewDeployer
         (stubSpec [\<lparr>Name = ''blackduck-postgres'', Size = [], StorageClass = []\<rparr>,
                    \<lparr>Name = ''custom-claim'', Size = ''ten'', StorageClass = []\<rparr>,
                    \<lparr>Name = ''blackduck-solr'', Size = [], StorageClass = []\<rparr>] None)
         () [] ''admin'' ''user'' False) =
     Some (pvcErrorf ''custom-claim'' ''bd'' ''invalid size'')
   \<and> map pvcName (pvcs (fst (init (stubExternals (rejectSize ''ten'')) NewDeployer
         (stubSpec [\<lparr>Name = ''blackduck-postgres'', Size = [], StorageClass = []\<rparr>,
                    \<lparr>Name = ''custom-claim'', Size = ''ten'', StorageClass = []\<rparr>,
                    \<lparr>Name = ''blackduck-solr'', Size = [], StorageClass = []\<rparr>] None)
         () [] ''admin'' ''user'' False))) = [''blackduck-postgres'']
   \<and> replicationControllers (fst (init (stubExternals (rejectSize ''ten'')) NewDeployer
         (stubSpec [\<lparr>Name = ''blackduck-postgres'', Size = [], StorageClass = []\<rparr>,
                    \<lparr>Name = ''custom-claim'', Size = ''ten'', StorageClass = []\<rparr>,
                    \<lparr>Name = ''blackduck-solr'', Size = [], StorageClass = []\<rparr>] None)
         () [] ''admin'' ''user'' False)) = []"
proof -
  let ?ext = "stubExternals (rejectSize ''ten'')"
  let ?pg = "\<lparr>Name = ''blackduck-postgres'', Size = [], StorageClass = []\<rparr>"
  let ?bad = "\<lparr>Name = ''custom-claim'', Size = ''ten'', StorageClass = []\<rparr>"
  let ?solr = "\<lparr>Name = ''blackduck-solr'', Size = [], StorageClass = []\<rparr>"
  let ?hub = "stubSpec [?pg, ?bad, ?solr] None"
  have 1: "PersistentStorage ?hub" by (simp add: stubSpec_def)
  have 2: "PVC ?hub = [?pg] @ ?bad # [?solr]" by (simp add: stubSpec_def)
  have 3: "\<forall>c\<in>set [?pg]. pvcRejected ?ext (resolvedPVC ?hub c) = None"
    by (simp add: stubExternals_def rejectSize_def resolvedPVC_def claimSize_def)
  have 4: "pvcRejected ?ext (resolvedPVC ?hub ?bad) = Some ''invalid size''"
    by (simp add: stubExternals_def rejectSize_def resolvedPVC_def claimSize_def)
  from C4_abort_keeps_earlier_pvcs [OF 1 2 3 4, of NewDeployer "()" "[]" "''admin''" "''user''" False]
  show ?thesis
    by (simp add: resolvedPVC_def NewDeployer_def stubSpec_def)
qed

text \<open>
  The deployer is not left without claims when \<open>init\<close> returns an error: with the
  declarations \<open>blackduck-postgres\<close> (accepted) and \<open>custom-claim\<close> (rejected) on a new
  deployer, \<open>init\<close> returns the error and the deployer holds the claim
  \<open>blackduck-postgres\<close>.
\<close>

theorem C4_partial_pvcs_counterexample:
  "snd (init (stubExternals (rejectSize ''ten'')) NewDeployer
         (stubSpec [\<lparr>Name = ''blackduck-postgres'', Size = [], StorageClass = []\<rparr>,
                    \<lparr>Name = ''custom-claim'', Size = ''ten'', StorageClass = []\<rparr>] None)
         () [] ''admin'' ''user'' False) =
     Some ''failed to create the postgres PVC custom-claim in namespace bd because invalid size''
   \<and> pvcs (fst (init (stubExternals (rejectSize ''ten'')) NewDeployer
         (stubSpec [\<lparr>Name = ''blackduck-postgres'', Size = [], StorageClass = []\<rparr>,
                    \<lparr>Name = ''custom-claim'', Size = ''ten'', StorageClass = []\<rparr>] None)
         () [] ''admin'' ''user'' False)) =
     [\<lparr>pvcName = ''blackduck-postgres'', pvcNamespace = ''bd'', pvcSize = ''150Gi'',
       pvcClass = ''standard'', pvcAccessMode = ReadWriteOnce\<rparr>]"
  by (simp add: init_def initBase_fields Let_def stubSpec_def stubExternals_def rejectSize_def
        CreatePersistentVolumeClaim_def claimSize_def claimStorageClass_def AddPVC_def
        pvcErrorf_def NewDeployer_def)

subsection \<open>C5: dispatch with no client\<close>

text \<open>
  C5. With neither binary on the path the detector returns \<open>(false, false)\<close>.
  \<open>RunKubeCmd\<close> and \<open>RunKubeCmdWithStdin\<close> then return the error of \<open>getKubeExecCmd\<close>
  and run nothing; \<open>RunKubeEditorCmd\<close> has no such branch, leaves \<open>cmd\<close> nil and panics
  on \<open>cmd.Stdin = os.Stdin\<close>.
\<close>

theorem C5_editor_nil_dereference:
  "DetermineClusterClients (stubEnv False False True) = (False, False)
   \<and> RunKubeCmd (stubEnv False False True) [''edit'', ''blackduck''] =
       Returns ([], Some ''couldn't determine if running in Openshift or Kubernetes'')
   \<and> RunKubeCmdWithStdin (stubEnv False False True) ''{}'' [''apply'', ''-f'', ''-''] =
       Returns ([], Some ''couldn't determine if running in Openshift or Kubernetes'')
   \<and> RunKubeEditorCmd (stubEnv False False True) [''edit'', ''blackduck''] =
       Panics NilPointerDereference"
  by (simp add: stubEnv_def DetermineClusterClients_def RunKubeCmd_def RunKubeCmdWithStdin_def
        RunKubeEditorCmd_def getKubeExecCmd_def kubeArgs_def)

subsection \<open>C6: the \<open>cluster-info\<close> shim\<close>

text \<open>
  C6. When the detector resolves a client, every dispatch function runs the client's
  binary on the global flags followed by the caller's arguments, in which the first
  argument is replaced by \<open>status\<close> when it is \<open>cluster-info\<close> and the kind is OpenShift,
  and is unchanged for Kubernetes or for any other first argument; the rest of the
  arguments is unchanged in every case.
\<close>

theorem C6_cluster_info_shim:
  assumes "DetermineClusterClients env = (kube, openshift)" and "kube \<or> openshift"
  shows "let cmd = \<lparr>cmdName = (if openshift then ''oc'' else ''kubectl''),
                    cmdArgs = globalFlags env
                      @ (if arg0 = ''cluster-info'' \<and> openshift then ''status'' else arg0)
                        # rest\<rparr>
         in getKubeExecCmd env (arg0 # rest) = Returns (Inr cmd)
          \<and> RunKubeCmd env (arg0 # rest) = Returns (CombinedOutput env cmd None)
          \<and> RunKubeCmdWithStdin env stdin (arg0 # rest) =
              (case StdinPipe env cmd of
                 Some err \<Rightarrow> Returns ([], Some err)
               | None \<Rightarrow> Returns (CombinedOutput env cmd (Some stdin)))
          \<and> RunKubeEditorCmd env (arg0 # rest) = Returns (Run env cmd)"
proof -
  let ?cmd = "\<lparr>cmdName = (if openshift then ''oc'' else ''kubectl''),
               cmdArgs = globalFlags env
                 @ (if arg0 = ''cluster-info'' \<and> openshift then ''status'' else arg0)
                   # rest\<rparr>"
  have get: "getKubeExecCmd env (arg0 # rest) = Returns (Inr ?cmd)"
    using assms by (auto simp add: getKubeExecCmd_def kubeArgs_Cons)
  note run = RunKubeCmd_of_cmd [OF get]
  note pipe = RunKubeCmdWithStdin_of_cmd [OF get, of stdin]
  have edit: "RunKubeEditorCmd env (arg0 # rest) = Returns (Run env ?cmd)"
  proof (cases "Run env ?cmd")
    case None
    with assms show ?thesis
      by (auto simp add: RunKubeEditorCmd_def kubeArgs_Cons)
  next
    case (Some err)
    with assms show ?thesis
      by (auto simp add: RunKubeEditorCmd_def kubeArgs_Cons)
  qed
  from get run pipe edit show ?thesis
    unfolding Let_def by (intro conjI)
qed

text \<open>
  \<open>["cluster-info"]\<close> on OpenShift runs \<open>oc status\<close>, on Kubernetes
  \<open>kubectl cluster-info\<close>; \<open>["get", "pods"]\<close> on OpenShift runs \<open>oc get pods\<close>.
\<close>

theorem C6_cluster_info_shim_witness:
  "getKubeExecCmd (stubEnv True True True) [''cluster-info''] =
     Returns (Inr \<lparr>cmdName = ''oc'', cmdArgs = [''status'']\<rparr>)
   \<and> getKubeExecCmd (stubEnv True True False) [''cluster-info''] =
     Returns (Inr \<lparr>cmdName = ''kubectl'', cmdArgs = [''cluster-info'']\<rparr>)
   \<and> getKubeExecCmd (stubEnv True True True) [''get'', ''pods''] =
     Returns (Inr \<lparr>cmdName = ''oc'', cmdArgs = [''get'', ''pods'']\<rparr>)"
proof -
  have os: "DetermineClusterClients (stubEnv True True True) = (False, True)"
    by (simp add: stubEnv_def DetermineClusterClients_def)
  have k8s: "DetermineClusterClients (stubEnv True True False) = (True, False)"
    by (simp add: stubEnv_def DetermineClusterClients_def)
  have flags: "globalFlags (stubEnv a b c) = []" for a b c
    by (simp add: globalFlags_def stubEnv_def)
  show ?thesis
    using C6_cluster_info_shim [OF os, of "''cluster-info''" "[]"]
      C6_cluster_info_shim [OF k8s, of "''cluster-info''" "[]"]
      C6_cluster_info_shim [OF os, of "''get''" "[''pods'']"]
    by (simp add: Let_def flags)
qed

subsection \<open>C7: the embedded database\<close>

text \<open>
  C7. When \<open>init\<close> returns without error, it has queued exactly one replication
  controller, the postgres deployment, and exactly one service, the postgres service of
  the same container creater, if the specification has no external database
  configuration, and neither of them if it has one.
\<close>

theorem C7_embedded_database:
  assumes "init ext d createHub fl env apw upw bin = (d', None)"
  shows "replicationControllers d' =
           replicationControllers d @
             (if ExternalPostgres createHub = None
              then [GetPostgresDeployment ext createHub fl env] else [])
       \<and> services d' =
           services d @
             (if ExternalPostgres createHub = None
              then [GetPostgresService ext createHub fl env] else [])"
proof (cases "PersistentStorage createHub")
  case False
  with assms show ?thesis
    by (auto simp add: init_def Let_def initBase_fields AddService_def
          AddReplicationController_def split: if_splits)
next
  case True
  let ?d5 = "initBase ext d createHub fl apw upw bin"
  obtain d6 failure where loop: "initClaims ext createHub (PVC createHub) ?d5 = (d6, failure)"
    by (cases "initClaims ext createHub (PVC createHub) ?d5")
  with assms True have "failure = None"
    by (cases failure) (simp_all add: init_def Let_def)
  with loop have d6: "replicationControllers d6 = replicationControllers d"
      "services d6 = services d"
    using initClaims_other_fields [of ext createHub "PVC createHub" ?d5]
    by (simp_all add: initBase_fields)
  from assms True loop \<open>failure = None\<close> d6 show ?thesis
    by (auto simp add: init_def Let_def AddService_def AddReplicationController_def
          split: if_splits)
qed

text \<open>On a new deployer: one controller and one service without, none with.\<close>

theorem C7_embedded_database_witness:
  "replicationControllers
     (fst (init (stubExternals (\<lambda>pvc. None)) NewDeployer (stubSpec [] None)
             () [] ''admin'' ''user'' False)) = [''postgres ReplicationController'']
   \<and> services
     (fst (init (stubExternals (\<lambda>pvc. None)) NewDeployer (stubSpec [] None)
             () [] ''admin'' ''user'' False)) = [''postgres Service'']
   \<and> replicationControllers
     (fst (init (stubExternals (\<lambda>pvc. None)) NewDeployer (stubSpec [] (Some ()))
             () [] ''admin'' ''user'' False)) = []
   \<and> services
     (fst (init (stubExternals (\<lambda>pvc. None)) NewDeployer (stubSpec [] (Some ()))
             () [] ''admin'' ''user'' False)) = []"
proof -
  let ?ext = "stubExternals (\<lambda>pvc. None)"
  have ok: "init ?ext NewDeployer (stubSpec [] e) () [] ''admin'' ''user'' False =
      (fst (init ?ext NewDeployer (stubSpec [] e) () [] ''admin'' ''user'' False), None)" for e
    by (simp add: init_def Let_def stubSpec_def)
  from C7_embedded_database [OF ok [of None]] C7_embedded_database [OF ok [of "Some ()"]]
  show ?thesis
    by (simp add: stubSpec_def stubExternals_def NewDeployer_def)
qed

subsection \<open>C8: the payload\<close>

text \<open>
  C8, as amended. When every object of the map serialises, the payload that
  \<open>KubectlApplyRuntimeObjects\<close> and \<open>KubectlDeleteRuntimeObjects\<close> pipe into the command
  is the plain concatenation of the serialised objects, each entry of the map exactly
  once, in the order in which the \<open>range\<close> loop visits the map.
\<close>

theorem C8_payload_raw_concatenation:
  assumes "rangeOrder objects visited"
    and "\<forall>obj\<in>ran objects. marshal obj = Inr (bytes obj)"
  shows "set visited = {(key, obj). objects key = Some obj}
       \<and> distinct (map fst visited)
       \<and> marshalObjects marshal visited [] =
           Inr (concat (map (\<lambda>(key, obj). bytes obj) visited))
       \<and> KubectlApplyRuntimeObjects env marshal visited =
           (case RunKubeCmdWithStdin env (concat (map (\<lambda>(key, obj). bytes obj) visited))
                   [''apply'', ''--validate=false'', ''-f'', ''-''] of
              Panics p \<Rightarrow> Panics p
            | Returns (out, Some err) \<Rightarrow>
                Returns (Some (''failed to deploy Runtime Object: '' @ out @ '' : '' @ err))
            | Returns (out, None) \<Rightarrow> Returns None)
       \<and> KubectlDeleteRuntimeObjects env marshal visited =
           (case RunKubeCmdWithStdin env (concat (map (\<lambda>(key, obj). bytes obj) visited))
                   [''delete'', ''-f'', ''-''] of
              Panics p \<Rightarrow> Panics p
            | Returns (out, Some err) \<Rightarrow>
                Returns (Some (''failed to delete Runtime Object: '' @ out @ '' : '' @ err))
            | Returns (out, None) \<Rightarrow> Returns None)"
proof -
  note entries = rangeOrder_entries [OF assms(1)]
  have "\<forall>(key, obj)\<in>set visited. marshal obj = Inr (bytes obj)"
    using assms(2) entries by (auto simp add: ran_def)
  then have payload: "marshalObjects marshal visited [] =
      Inr (concat (map (\<lambda>(key, obj). bytes obj) visited))"
    by (simp add: marshalObjects_concat)
  have keys: "distinct (map fst visited)"
    using assms(1) by (simp add: rangeOrder_def)
  have applied: "KubectlApplyRuntimeObjects env marshal visited =
           (case RunKubeCmdWithStdin env (concat (map (\<lambda>(key, obj). bytes obj) visited))
                   [''apply'', ''--validate=false'', ''-f'', ''-''] of
              Panics p \<Rightarrow> Panics p
            | Returns (out, Some err) \<Rightarrow>
                Returns (Some (''failed to deploy Runtime Object: '' @ out @ '' : '' @ err))
            | Returns (out, None) \<Rightarrow> Returns None)"
    unfolding KubectlApplyRuntimeObjects_def payload by simp
  have deleted: "KubectlDeleteRuntimeObjects env marshal visited =
           (case RunKubeCmdWithStdin env (concat (map (\<lambda>(key, obj). bytes obj) visited))
                   [''delete'', ''-f'', ''-''] of
              Panics p \<Rightarrow> Panics p
            | Returns (out, Some err) \<Rightarrow>
                Returns (Some (''failed to delete Runtime Object: '' @ out @ '' : '' @ err))
            | Returns (out, None) \<Rightarrow> Returns None)"
    unfolding KubectlDeleteRuntimeObjects_def payload by simp
  from entries keys payload applied deleted show ?thesis
    by (intro conjI)
qed

text \<open>A map of two objects visited in the order \<open>secret\<close>, \<open>namespace\<close>.\<close>

theorem C8_payload_raw_concatenation_witness:
  "rangeOrder [''namespace'' \<mapsto> ''N'', ''secret'' \<mapsto> ''S'']
     [(''secret'', ''S''), (''namespace'', ''N'')]
   \<and> marshalObjects Inr [(''secret'', ''S''), (''namespace'', ''N'')] [] = Inr ''SN''"
proof -
  have order: "rangeOrder [''namespace'' \<mapsto> ''N'', ''secret'' \<mapsto> ''S'']
     [(''secret'', ''S''), (''namespace'', ''N'')]"
    by (simp add: rangeOrder_def)
  have all: "\<forall>obj\<in>ran [''namespace'' \<mapsto> ''N'', ''secret'' \<mapsto> ''S''].
      (Inr :: string \<Rightarrow> string + string) obj = Inr (id obj)"
    by simp
  from C8_payload_raw_concatenation [OF order all] order show ?thesis
    by simp
qed

text \<open>
  The payload is not a function of the set of objects: the same map of two objects can be
  visited in two orders, and the two payloads differ.
\<close>

theorem C8_range_order_counterexample:
  "rangeOrder [''namespace'' \<mapsto> ''N'', ''secret'' \<mapsto> ''S'']
     [(''namespace'', ''N''), (''secret'', ''S'')]
   \<and> rangeOrder [''namespace'' \<mapsto> ''N'', ''secret'' \<mapsto> ''S'']
     [(''secret'', ''S''), (''namespace'', ''N'')]
   \<and> marshalObjects Inr [(''namespace'', ''N''), (''secret'', ''S'')] [] = Inr ''NS''
   \<and> marshalObjects Inr [(''secret'', ''S''), (''namespace'', ''N'')] [] = Inr ''SN''"
  by (auto simp add: rangeOrder_def fun_eq_iff)

subsection \<open>C9: the postgres claim\<close>

text \<open>
  C9. With persistence enabled and a constructor that accepts the claims of the
  specification, a declaration \<open>{name: "blackduck-postgres", size: ""}\<close> makes \<open>init\<close>
  succeed and queue a claim of that name in the namespace of the instance, of size 150Gi
  and access mode read-write-once.
\<close>

theorem C9_postgres_default_pvc:
  assumes "PersistentStorage createHub"
    and "claim \<in> set (PVC createHub)"
    and "Name claim = ''blackduck-postgres''"
    and "Size claim = []"
    and "\<forall>c\<in>set (PVC createHub). pvcRejected ext (resolvedPVC createHub c) = None"
  shows "snd (init ext d createHub fl env apw upw bin) = None
       \<and> \<lparr>pvcName = ''blackduck-postgres'', pvcNamespace = Namespace createHub,
           pvcSize = ''150Gi'', pvcClass = claimStorageClass createHub claim,
           pvcAccessMode = ReadWriteOnce\<rparr>
           \<in> set (pvcs (fst (init ext d createHub fl env apw upw bin)))"
proof -
  have r: "resolvedPVC createHub claim =
      \<lparr>pvcName = ''blackduck-postgres'', pvcNamespace = Namespace createHub,
       pvcSize = ''150Gi'', pvcClass = claimStorageClass createHub claim,
       pvcAccessMode = ReadWriteOnce\<rparr>"
    using assms(3,4) by (simp add: resolvedPVC_def claimSize_def)
  have "resolvedPVC createHub claim \<in> set (map (resolvedPVC createHub) (PVC createHub))"
    using assms(2) by simp
  then show ?thesis
    using assms(1,5)
    by (simp add: init_def Let_def initClaims_accepted AddService_def
          AddReplicationController_def r)
qed

text \<open>The scenario on a new deployer, with the storage class of the instance.\<close>

theorem C9_postgres_default_pvc_witness:
  "snd (init (stubExternals (\<lambda>pvc. None)) NewDeployer
         (stubSpec [\<lparr>Name = ''blackduck-postgres'', Size = [], StorageClass = []\<rparr>] None)
         () [] ''admin'' ''user'' False) = None
   \<and> \<lparr>pvcName = ''blackduck-postgres'', pvcNamespace = ''bd'', pvcSize = ''150Gi'',
       pvcClass = ''standard'', pvcAccessMode = ReadWriteOnce\<rparr>
      \<in> set (pvcs (fst (init (stubExternals (\<lambda>pvc. None)) NewDeployer
         (stubSpec [\<lparr>Name = ''blackduck-postgres'', Size = [], StorageClass = []\<rparr>] None)
         () [] ''admin'' ''user'' False)))"
proof -
  let ?ext = "stubExternals (\<lambda>pvc. None)"
  let ?pg = "\<lparr>Name = ''blackduck-postgres'', Size = [], StorageClass = []\<rparr>"
  let ?hub = "stubSpec [?pg] None"
  have 1: "PersistentStorage ?hub" by (simp add: stubSpec_def)
  have 2: "?pg \<in> set (PVC ?hub)" by (simp add: stubSpec_def)
  have 3: "Name ?pg = ''blackduck-postgres''" by simp
  have 4: "Size ?pg = []" by simp
  have 5: "\<forall>c\<in>set (PVC ?hub). pvcRejected ?ext (resolvedPVC ?hub c) = None"
    by (simp add: stubExternals_def)
  from C9_postgres_default_pvc [OF 1 2 3 4 5, of NewDeployer "()" "[]" "''admin''" "''user''" False]
  show ?thesis
    by (simp add: claimStorageClass_def stubSpec_def)
qed

subsection \<open>C10: the first argument\<close>




end
